theory Spec2Isabelle
  imports Main "HOL-Library.Char_ord" "HOL-Library.List_Lexorder"
begin

section \<open>JavaScript values the server handles\<close>

text \<open>
  Tool parameters arrive over a JSON transport and error messages are run through
  \<open>JSON.parse\<close>, so every value the server inspects is a JSON value. The server never
  computes with a number; it only passes numbers on. \<open>JNum i\<close> is the double whose value
  is the integer \<open>i\<close>: only integers that a double holds exactly are numbers of the
  model, and fractions are outside it. An object is the list of its own properties in
  insertion order, each key once. \<open>undefined\<close> is \<open>None\<close> of \<open>json option\<close>.
\<close>

datatype json =
    JNull
  | JBool bool
  | JNum int
  | JStr string
  | JArr "json list"
  | JObj "(string \<times> json) list"

type_synonym jsval = "json option"

text \<open>
  A thrown value: an \<open>Error\<close> instance with its message, or a primitive value that is not
  an \<open>Error\<close> (the branch \<open>error instanceof Error\<close> tests for).
\<close>

datatype thrown = Error string | NonError

text \<open>
  The two \<open>TypeError\<close>s the handlers can raise on odd parameters: reading a property of
  \<open>undefined\<close> or \<open>null\<close>, and converting to a string, inside a template literal, an
  object that has no callable \<open>toString\<close> and whose \<open>valueOf\<close> returns an object.
\<close>

datatype type_error = CannotRead jsval string | CannotConvert

text \<open>
  The parts of the JavaScript runtime the server calls and this repository does not
  define: \<open>JSON.parse\<close> (\<open>None\<close> when it throws \<open>SyntaxError\<close>), \<open>JSON.stringify\<close>, and the
  engine's wording of a \<open>TypeError\<close> message. They are parameters of the model.
\<close>

record js_env =
  JSON_parse :: "string \<Rightarrow> json option"
  JSON_stringify :: "json \<Rightarrow> string"
  TypeError_message :: "type_error \<Rightarrow> string"

text \<open>
  \<open>`${v}`\<close> applies \<open>ToString\<close>. On an object parsed from JSON it throws exactly when the
  object has an own property \<open>toString\<close> (never callable, so \<open>OrdinaryToPrimitive\<close> falls
  through to \<open>Object.prototype.valueOf\<close>, which returns the object); on an array it joins
  the elements, converting each one that is not \<open>null\<close>.
\<close>

fun to_string_throws :: "json \<Rightarrow> bool" where
  "to_string_throws (JObj kvs) = (''toString'' \<in> fst ` set kvs)"
| "to_string_throws (JArr xs) = list_ex to_string_throws xs"
| "to_string_throws _ = False"

definition template_throws :: "jsval \<Rightarrow> bool" where
  "template_throws v = (case v of None \<Rightarrow> False | Some j \<Rightarrow> to_string_throws j)"

text \<open>
  \<open>v.key\<close> for the property names the server reads (\<open>to\<close>, \<open>token\<close>, \<open>decimals\<close>,
  \<open>message\<close>), none of which a built-in prototype defines: a \<open>TypeError\<close> on \<open>undefined\<close>
  and \<open>null\<close>, the own property of an object, \<open>undefined\<close> on anything else.
\<close>

definition get_prop :: "js_env \<Rightarrow> jsval \<Rightarrow> string \<Rightarrow> thrown + jsval" where
  "get_prop E v key =
     (case v of
        None \<Rightarrow> Inl (Error (TypeError_message E (CannotRead v key)))
      | Some JNull \<Rightarrow> Inl (Error (TypeError_message E (CannotRead v key)))
      | Some (JObj kvs) \<Rightarrow> Inr (map_of kvs key)
      | Some _ \<Rightarrow> Inr None)"

section \<open>Configuration, tools and the pending-confirmation map\<close>

datatype tier = Read | Prepare | Info | Transaction

text \<open>
  \<open>this.config\<close> after the constructor's merge. \<open>port\<close> and \<open>allowedOperations\<close> may
  be \<open>undefined\<close> (the latter is read with \<open>?.includes\<close>). \<open>requireConfirmation\<close> is
  only ever tested for truth, so the field holds its truthiness: \<open>undefined\<close> is \<open>False\<close>.
\<close>

record McpServerConfig =
  port :: "nat option"
  allowedOperations :: "tier list option"
  requireConfirmation :: bool

text \<open>
  The constructor's argument. Each key is absent, present with the value \<open>undefined\<close>,
  or present with a value.
\<close>

datatype 'a opt_key = Absent | Undefined | Present 'a

record serverConfig =
  port_opt :: "nat opt_key"
  allowedOperations_opt :: "tier list opt_key"
  requireConfirmation_opt :: "bool opt_key"

text \<open>
  \<open>{port: 3000, allowedOperations: ['read', 'prepare', 'info'], requireConfirmation: true,
  ...serverConfig}\<close>: the spread copies every key that is present, also one whose value
  is \<open>undefined\<close>, over the default.
\<close>

definition merge_config :: "serverConfig \<Rightarrow> McpServerConfig" where
  "merge_config sc =
     \<lparr> port =
         (case port_opt sc of Absent \<Rightarrow> Some 3000 | Undefined \<Rightarrow> None | Present p \<Rightarrow> Some p),
       allowedOperations =
         (case allowedOperations_opt sc of
            Absent \<Rightarrow> Some [Read, Prepare, Info]
          | Undefined \<Rightarrow> None
          | Present ops \<Rightarrow> Some ops),
       requireConfirmation =
         (case requireConfirmation_opt sc of
            Absent \<Rightarrow> True
          | Undefined \<Rightarrow> False
          | Present b \<Rightarrow> b) \<rparr>"

definition allows :: "McpServerConfig \<Rightarrow> tier \<Rightarrow> bool" where
  "allows cfg t =
     (case allowedOperations cfg of None \<Rightarrow> False | Some ops \<Rightarrow> t \<in> set ops)"

text \<open>
  A property of an input schema: its \<open>type\<close> and its \<open>pattern\<close>, one of the two regular
  expressions the schemas use, \<open>^0x[a-fA-F0-9]{40}$\<close> and \<open>^[0-9]+$\<close>. Descriptions and
  output schemas are advertised text that no code path reads; they are left out.
\<close>

datatype json_type = TString | TNumber

datatype pattern = AddressPattern | DecimalPattern

record prop_schema =
  ptype :: json_type
  ppattern :: "pattern option"

record input_schema =
  properties :: "(string \<times> prop_schema) list"
  required :: "string list"
  additionalProperties :: bool

text \<open>The five handler closures of \<open>registerTools\<close>.\<close>

datatype handler =
    H_getAddress
  | H_getBalance
  | H_signTransaction
  | H_getTokenBalance
  | H_sendTransaction

record tool =
  name :: string
  inputSchema :: input_schema
  handler :: handler

definition empty_schema :: input_schema where
  "empty_schema = \<lparr> properties = [], required = [], additionalProperties = False \<rparr>"

definition transaction_schema :: input_schema where
  "transaction_schema =
     \<lparr> properties =
         [(''to'', \<lparr> ptype = TString, ppattern = Some AddressPattern \<rparr>),
          (''value'', \<lparr> ptype = TString, ppattern = Some DecimalPattern \<rparr>),
          (''data'', \<lparr> ptype = TString, ppattern = None \<rparr>)],
       required = [''to'', ''value''],
       additionalProperties = False \<rparr>"

definition token_schema :: input_schema where
  "token_schema =
     \<lparr> properties =
         [(''token'', \<lparr> ptype = TString, ppattern = Some AddressPattern \<rparr>),
          (''decimals'', \<lparr> ptype = TNumber, ppattern = None \<rparr>)],
       required = [''token''],
       additionalProperties = False \<rparr>"

definition getAddressTool :: tool where
  "getAddressTool =
     \<lparr> name = ''wallet_getAddress'', inputSchema = empty_schema, handler = H_getAddress \<rparr>"

definition getBalanceTool :: tool where
  "getBalanceTool =
     \<lparr> name = ''wallet_getBalance'', inputSchema = empty_schema, handler = H_getBalance \<rparr>"

definition signTransactionTool :: tool where
  "signTransactionTool =
     \<lparr> name = ''wallet_signTransaction'', inputSchema = transaction_schema,
       handler = H_signTransaction \<rparr>"

definition getTokenBalanceTool :: tool where
  "getTokenBalanceTool =
     \<lparr> name = ''wallet_getTokenBalance'', inputSchema = token_schema,
       handler = H_getTokenBalance \<rparr>"

definition sendTransactionTool :: tool where
  "sendTransactionTool =
     \<lparr> name = ''wallet_sendTransaction'', inputSchema = transaction_schema,
       handler = H_sendTransaction \<rparr>"

datatype status = Pending | Confirmed | Rejected

record pending_tx =
  params :: jsval
  status :: status
  createdAt :: int

text \<open>
  The capability provider, \<open>this.wallet\<close>. A call either returns a string or throws.
  Its answer may depend on everything asked of it before, so a wallet is a function of
  the calls made so far and the call being made.
\<close>

datatype wallet_call =
    GetAddress
  | GetBalance
  | SignTransaction jsval
  | GetTokenBalance jsval jsval
  | SendTransaction jsval

type_synonym wallet = "wallet_call list \<Rightarrow> wallet_call \<Rightarrow> thrown + string"

text \<open>
  The fields of \<open>McpServer\<close> that its methods read or write, and the calls made on the
  wallet so far (what a call counter on a test double would record). Logging goes to a
  write-only sink and is not part of the state.
\<close>

record server =
  config :: McpServerConfig
  tools :: "tool list"
  pendingConfirmations :: "string \<rightharpoonup> pending_tx"
  wallet_calls :: "wallet_call list"

definition McpServer_new :: "serverConfig \<Rightarrow> server" where
  "McpServer_new sc =
     \<lparr> config = merge_config sc, tools = [], pendingConfirmations = Map.empty,
       wallet_calls = [] \<rparr>"

section \<open>registerTools and start\<close>

definition registerTools :: "server \<Rightarrow> server" where
  "registerTools s =
     s\<lparr> tools := tools s
          @ (if allows (config s) Read then [getAddressTool, getBalanceTool] else [])
          @ (if allows (config s) Prepare then [signTransactionTool] else [])
          @ (if allows (config s) Info then [getTokenBalanceTool] else [])
          @ (if allows (config s) Transaction \<and> requireConfirmation (config s)
             then [sendTransactionTool] else []) \<rparr>"

definition start :: "server \<Rightarrow> server" where
  "start s = registerTools s"

section \<open>The wallet call and the tool handlers\<close>

definition call_wallet :: "wallet \<Rightarrow> server \<Rightarrow> wallet_call \<Rightarrow> (thrown + string) \<times> server" where
  "call_wallet W s c =
     (W (wallet_calls s) c, s\<lparr> wallet_calls := wallet_calls s @ [c] \<rparr>)"

definition getAddress_handler :: "wallet \<Rightarrow> server \<Rightarrow> (thrown + json) \<times> server" where
  "getAddress_handler W s =
     (case call_wallet W s GetAddress of
        (Inr address, s') \<Rightarrow> (Inr (JStr address), s')
      | (Inl e, s') \<Rightarrow> (Inl e, s'))"

definition getBalance_handler :: "wallet \<Rightarrow> server \<Rightarrow> (thrown + json) \<times> server" where
  "getBalance_handler W s =
     (case call_wallet W s GetBalance of
        (Inr balance, s') \<Rightarrow> (Inr (JStr balance), s')
      | (Inl e, s') \<Rightarrow> (Inl e, s'))"

text \<open>
  After the wallet has signed, the success log line evaluates \<open>`${params.to}`\<close> inside the
  \<open>try\<close>: a \<open>TypeError\<close> there is caught, logged and thrown on like a wallet failure.
\<close>

definition signTransaction_handler ::
  "js_env \<Rightarrow> wallet \<Rightarrow> server \<Rightarrow> jsval \<Rightarrow> (thrown + json) \<times> server" where
  "signTransaction_handler E W s ps =
     (case call_wallet W s (SignTransaction ps) of
        (Inl e, s') \<Rightarrow> (Inl e, s')
      | (Inr signedTx, s') \<Rightarrow>
          (case get_prop E ps ''to'' of
             Inl te \<Rightarrow> (Inl te, s')
           | Inr to \<Rightarrow>
               if template_throws to
               then (Inl (Error (TypeError_message E CannotConvert)), s')
               else (Inr (JObj [(''signedTransaction'', JStr signedTx)]), s')))"

text \<open>
  \<open>params.token\<close> and \<open>params.decimals\<close> are read before the wallet is called.
\<close>

definition getTokenBalance_handler ::
  "js_env \<Rightarrow> wallet \<Rightarrow> server \<Rightarrow> jsval \<Rightarrow> (thrown + json) \<times> server" where
  "getTokenBalance_handler E W s ps =
     (case get_prop E ps ''token'' of
        Inl te \<Rightarrow> (Inl te, s)
      | Inr token \<Rightarrow>
          (case get_prop E ps ''decimals'' of
             Inl te \<Rightarrow> (Inl te, s)
           | Inr decimals \<Rightarrow>
               (case call_wallet W s (GetTokenBalance token decimals) of
                  (Inl e, s') \<Rightarrow> (Inl e, s')
                | (Inr balance, s') \<Rightarrow>
                    if template_throws token
                    then (Inl (Error (TypeError_message E CannotConvert)), s')
                    else (Inr (JStr balance), s'))))"

text \<open>
  The Chinese half of the pending message up to the id, as the UTF-8 bytes of the source
  text, and the English half.
\<close>

definition zh_pending :: string where
  "zh_pending =
     [CHR 0xE4, CHR 0xBA, CHR 0xA4, CHR 0xE6, CHR 0x98, CHR 0x93, CHR 0xE7, CHR 0xAD,
      CHR 0x89, CHR 0xE5, CHR 0xBE, CHR 0x85, CHR 0xE7, CHR 0x94, CHR 0xA8, CHR 0xE6,
      CHR 0x88, CHR 0xB7, CHR 0xE7, CHR 0xA1, CHR 0xAE, CHR 0xE8, CHR 0xAE, CHR 0xA4]
     @ '' (ID: ''"

definition en_pending :: string where
  "en_pending = ''Transaction pending confirmation (ID: ''"

definition pending_message :: "string \<Rightarrow> json" where
  "pending_message txId =
     JObj [(''zh'', JStr (zh_pending @ txId @ '')'')),
           (''en'', JStr (en_pending @ txId @ '')''))]"

definition need_confirmation :: "js_env \<Rightarrow> string \<Rightarrow> json" where
  "need_confirmation E txId =
     JObj [(''code'', JStr ''NEED_CONFIRMATION''),
           (''message'', JStr (JSON_stringify E (pending_message txId)))]"

text \<open>
  \<open>txId\<close> is what \<open>crypto.randomUUID()\<close> returns and \<open>now\<close> what \<open>Date.now()\<close> returns
  during this call.
\<close>

definition sendTransaction_handler ::
  "js_env \<Rightarrow> wallet \<Rightarrow> string \<Rightarrow> int \<Rightarrow> server \<Rightarrow> jsval \<Rightarrow> (thrown + json) \<times> server" where
  "sendTransaction_handler E W txId now s ps =
     (if requireConfirmation (config s)
      then (Inl (Error (JSON_stringify E (need_confirmation E txId))),
            s\<lparr> pendingConfirmations := (pendingConfirmations s)
                 (txId \<mapsto> \<lparr> params = ps, status = Pending, createdAt = now \<rparr>) \<rparr>)
      else (case call_wallet W s (SendTransaction ps) of
              (Inr txHash, s') \<Rightarrow> (Inr (JObj [(''transactionHash'', JStr txHash)]), s')
            | (Inl e, s') \<Rightarrow> (Inl e, s')))"

fun run_handler ::
  "js_env \<Rightarrow> wallet \<Rightarrow> string \<Rightarrow> int \<Rightarrow> server \<Rightarrow> handler \<Rightarrow> jsval \<Rightarrow> (thrown + json) \<times> server" where
  "run_handler E W txId now s H_getAddress ps = getAddress_handler W s"
| "run_handler E W txId now s H_getBalance ps = getBalance_handler W s"
| "run_handler E W txId now s H_signTransaction ps = signTransaction_handler E W s ps"
| "run_handler E W txId now s H_getTokenBalance ps = getTokenBalance_handler E W s ps"
| "run_handler E W txId now s H_sendTransaction ps = sendTransaction_handler E W txId now s ps"

section \<open>The request handlers\<close>

datatype response = Result json | ErrorResponse json

definition tool_error :: "string \<Rightarrow> response" where
  "tool_error m = ErrorResponse (JObj [(''code'', JStr ''TOOL_ERROR''), (''message'', JStr m)])"

definition unknown_error :: response where
  "unknown_error =
     ErrorResponse (JObj [(''code'', JStr ''UNKNOWN_ERROR''),
                          (''message'', JStr ''An unknown error occurred'')])"

text \<open>
  Inside the inner \<open>try\<close>, after \<open>JSON.parse\<close> has succeeded, the log line evaluates
  \<open>`${parsedError.message}`\<close>. It throws when \<open>parsedError\<close> is \<open>null\<close> or when the
  \<open>message\<close> property cannot be converted to a string, and the bare \<open>catch\<close> takes that
  like a \<open>SyntaxError\<close>.
\<close>

definition log_parsed_throws :: "json \<Rightarrow> bool" where
  "log_parsed_throws j =
     (case j of
        JNull \<Rightarrow> True
      | JObj kvs \<Rightarrow> template_throws (map_of kvs ''message'')
      | _ \<Rightarrow> False)"

definition error_response :: "js_env \<Rightarrow> thrown \<Rightarrow> response" where
  "error_response E e =
     (case e of
        Error m \<Rightarrow>
          (case JSON_parse E m of
             None \<Rightarrow> tool_error m
           | Some parsedError \<Rightarrow>
               if log_parsed_throws parsedError then tool_error m
               else ErrorResponse parsedError)
      | NonError \<Rightarrow> unknown_error)"

definition not_found_tool :: "string \<Rightarrow> string" where
  "not_found_tool nm = ''Tool '' @ nm @ '' not found''"

definition call_tool ::
  "js_env \<Rightarrow> wallet \<Rightarrow> string \<Rightarrow> int \<Rightarrow> server \<Rightarrow> string \<Rightarrow> jsval \<Rightarrow> response \<times> server" where
  "call_tool E W txId now s nm ps =
     (case find (\<lambda>t. name t = nm) (tools s) of
        None \<Rightarrow> (error_response E (Error (not_found_tool nm)), s)
      | Some t \<Rightarrow>
          (case run_handler E W txId now s (handler t) ps of
             (Inr result, s') \<Rightarrow> (Result result, s')
           | (Inl e, s') \<Rightarrow> (error_response E e, s')))"

definition list_tools :: "server \<Rightarrow> tool list \<times> server" where
  "list_tools s = (tools s, s)"

section \<open>confirmTransaction and rejectTransaction\<close>

definition not_found_tx :: "string \<Rightarrow> string" where
  "not_found_tx txId = ''Transaction with ID '' @ txId @ '' not found''"

definition confirmTransaction :: "wallet \<Rightarrow> server \<Rightarrow> string \<Rightarrow> (thrown + string) \<times> server" where
  "confirmTransaction W s txId =
     (case pendingConfirmations s txId of
        None \<Rightarrow> (Inl (Error (not_found_tx txId)), s)
      | Some pendingTx \<Rightarrow>
          call_wallet W
            (s\<lparr> pendingConfirmations :=
                 (pendingConfirmations s)(txId \<mapsto> pendingTx\<lparr> status := Confirmed \<rparr>) \<rparr>)
            (SendTransaction (params pendingTx)))"

definition rejectTransaction :: "server \<Rightarrow> string \<Rightarrow> (thrown + unit) \<times> server" where
  "rejectTransaction s txId =
     (case pendingConfirmations s txId of
        None \<Rightarrow> (Inl (Error (not_found_tx txId)), s)
      | Some pendingTx \<Rightarrow>
          (Inr (),
           s\<lparr> pendingConfirmations :=
                (pendingConfirmations s)(txId \<mapsto> pendingTx\<lparr> status := Rejected \<rparr>) \<rparr>))"

section \<open>What the input schemas ask for\<close>

text \<open>
  The declared input schemas, read as JSON Schema: the value is an object, every
  \<open>required\<close> key is present, every property present is declared (\<open>additionalProperties\<close>
  is \<open>false\<close>), has the declared type and, if it is a string, matches the declared
  pattern. This is what a valid call means; no code path of the server evaluates it.
\<close>

definition is_hex :: "char \<Rightarrow> bool" where
  "is_hex c = (c \<in> set ''0123456789abcdefABCDEF'')"

definition is_digit :: "char \<Rightarrow> bool" where
  "is_digit c = (c \<in> set ''0123456789'')"

fun matches :: "pattern \<Rightarrow> string \<Rightarrow> bool" where
  "matches AddressPattern str =
     (length str = 42 \<and> take 2 str = ''0x'' \<and> list_all is_hex (drop 2 str))"
| "matches DecimalPattern str = (str \<noteq> [] \<and> list_all is_digit str)"

fun has_type :: "json_type \<Rightarrow> json \<Rightarrow> bool" where
  "has_type TString (JStr str) = True"
| "has_type TNumber (JNum n) = True"
| "has_type _ _ = False"

definition prop_ok :: "prop_schema \<Rightarrow> json \<Rightarrow> bool" where
  "prop_ok p v =
     (has_type (ptype p) v \<and>
      (case (ppattern p, v) of (Some pat, JStr str) \<Rightarrow> matches pat str | _ \<Rightarrow> True))"

definition entry_ok :: "input_schema \<Rightarrow> string \<times> json \<Rightarrow> bool" where
  "entry_ok sch kv =
     (case map_of (properties sch) (fst kv) of
        None \<Rightarrow> additionalProperties sch
      | Some p \<Rightarrow> prop_ok p (snd kv))"

definition valid_params :: "input_schema \<Rightarrow> jsval \<Rightarrow> bool" where
  "valid_params sch ps =
     (case ps of
        Some (JObj kvs) \<Rightarrow>
          list_all (\<lambda>k. k \<in> fst ` set kvs) (required sch) \<and> list_all (entry_ok sch) kvs
      | _ \<Rightarrow> False)"

text \<open>The tier of a tool is the \<open>if\<close> block of \<open>registerTools\<close> that pushes it.\<close>

fun handler_tier :: "handler \<Rightarrow> tier" where
  "handler_tier H_getAddress = Read"
| "handler_tier H_getBalance = Read"
| "handler_tier H_signTransaction = Prepare"
| "handler_tier H_getTokenBalance = Info"
| "handler_tier H_sendTransaction = Transaction"

definition tool_tier :: "tool \<Rightarrow> tier" where
  "tool_tier t = handler_tier (handler t)"

text \<open>Every descriptor \<open>registerTools\<close> can push, in the order of its \<open>push\<close> calls.\<close>

definition all_tools :: "tool list" where
  "all_tools =
     [getAddressTool, getBalanceTool, signTransactionTool, getTokenBalanceTool,
      sendTransactionTool]"

text \<open>
  The wallet operation behind each read, prepare and info tool, and the shape in which
  the handler returns the wallet's string.
\<close>

fun capability_call :: "handler \<Rightarrow> jsval \<Rightarrow> wallet_call" where
  "capability_call H_getAddress ps = GetAddress"
| "capability_call H_getBalance ps = GetBalance"
| "capability_call H_signTransaction ps = SignTransaction ps"
| "capability_call H_getTokenBalance ps =
     (case ps of
        Some (JObj kvs) \<Rightarrow> GetTokenBalance (map_of kvs ''token'') (map_of kvs ''decimals'')
      | _ \<Rightarrow> GetTokenBalance None None)"
| "capability_call H_sendTransaction ps = SendTransaction ps"

fun capability_result :: "handler \<Rightarrow> string \<Rightarrow> json" where
  "capability_result H_signTransaction str = JObj [(''signedTransaction'', JStr str)]"
| "capability_result H_sendTransaction str = JObj [(''transactionHash'', JStr str)]"
| "capability_result _ str = JStr str"

text \<open>
  A server that has been started once: \<open>this.tools\<close> is what one run of
  \<open>registerTools\<close> pushes onto an empty list under the server's configuration.
\<close>

definition started :: "server \<Rightarrow> bool" where
  "started s = (tools s = tools (registerTools (s\<lparr> tools := [] \<rparr>)))"

text \<open>
  The condition under which \<open>registerTools\<close> pushes a descriptor: its tier is allowed
  and, for the transaction tier, confirmation is required as well.
\<close>

definition registered :: "McpServerConfig \<Rightarrow> tool \<Rightarrow> bool" where
  "registered cfg t =
     (allows cfg (tool_tier t) \<and>
      (if tool_tier t = Transaction then requireConfirmation cfg else True))"

text \<open>
  The listing as the specification puts it: the descriptors whose tier is allowed, in
  registration order.
\<close>

definition enabled_descriptors :: "McpServerConfig \<Rightarrow> tool list" where
  "enabled_descriptors cfg = filter (\<lambda>t. allows cfg (tool_tier t)) all_tools"

text \<open>Two and three operations in a row on one id.\<close>

definition confirm_twice ::
  "wallet \<Rightarrow> server \<Rightarrow> string \<Rightarrow> (thrown + string) \<times> (thrown + string) \<times> server" where
  "confirm_twice W s txId =
     (case confirmTransaction W s txId of
        (r1, s1) \<Rightarrow> (case confirmTransaction W s1 txId of (r2, s2) \<Rightarrow> (r1, r2, s2)))"

definition confirm_then_reject ::
  "wallet \<Rightarrow> server \<Rightarrow> string \<Rightarrow> (thrown + string) \<times> (thrown + unit) \<times> server" where
  "confirm_then_reject W s txId =
     (case confirmTransaction W s txId of
        (r1, s1) \<Rightarrow> (case rejectTransaction s1 txId of (r2, s2) \<Rightarrow> (r1, r2, s2)))"

text \<open>
  How a caller reads the confirmation id out of a response: the response is an error
  with code \<open>NEED_CONFIRMATION\<close>, its message is JSON text, and the \<open>en\<close> field of that
  text is \<open>Transaction pending confirmation (ID: \<close>, the id, and a closing bracket.
\<close>

definition id_between :: "string \<Rightarrow> string option" where
  "id_between en =
     (if length en_pending < length en \<and> take (length en_pending) en = en_pending \<and>
         last en = CHR '')''
      then Some (butlast (drop (length en_pending) en))
      else None)"

definition signal_id :: "js_env \<Rightarrow> response \<Rightarrow> string option" where
  "signal_id E r =
     (case r of
        ErrorResponse (JObj kvs) \<Rightarrow>
          (case (map_of kvs ''code'', map_of kvs ''message'') of
             (Some (JStr c), Some (JStr m)) \<Rightarrow>
               if c = ''NEED_CONFIRMATION''
               then (case JSON_parse E m of
                       Some (JObj inner) \<Rightarrow>
                         (case map_of inner ''en'' of
                            Some (JStr en) \<Rightarrow> id_between en
                          | _ \<Rightarrow> None)
                     | _ \<Rightarrow> None)
               else None
           | _ \<Rightarrow> None)
      | _ \<Rightarrow> None)"

text \<open>The age test the specification describes; the server has no counterpart.\<close>

definition expired :: "int \<Rightarrow> int \<Rightarrow> pending_tx \<Rightarrow> bool" where
  "expired maxAge now p = (maxAge < now - createdAt p)"

section \<open>A concrete runtime and concrete wallets\<close>

text \<open>
  \<open>JSON.stringify\<close> on strings, objects, arrays, booleans and \<open>null\<close>, and on the
  numbers of the model of magnitude below \<open>10^21\<close>, which JavaScript prints as their
  decimal digits (a double that holds an integer exactly prints that integer; from
  \<open>10^21\<close> on it prints an exponent, which \<open>show_int\<close> does not). A string is quoted,
  with quote, backslash and control characters escaped; bytes above ASCII are copied.
\<close>

definition hex_digit :: "nat \<Rightarrow> char" where
  "hex_digit n = ''0123456789abcdef'' ! (n mod 16)"

definition escape_char :: "char \<Rightarrow> string" where
  "escape_char c =
     (if c = CHR 0x22 then [CHR 0x5C, CHR 0x22]
      else if c = CHR 0x5C then [CHR 0x5C, CHR 0x5C]
      else if c = CHR 0x08 then [CHR 0x5C, CHR ''b'']
      else if c = CHR 0x09 then [CHR 0x5C, CHR ''t'']
      else if c = CHR 0x0A then [CHR 0x5C, CHR ''n'']
      else if c = CHR 0x0C then [CHR 0x5C, CHR ''f'']
      else if c = CHR 0x0D then [CHR 0x5C, CHR ''r'']
      else if (of_char c :: nat) < 32
        then [CHR 0x5C] @ ''u00'' @ [hex_digit (of_char c div 16), hex_digit (of_char c)]
      else [c])"

definition quote :: "string \<Rightarrow> string" where
  "quote str = [CHR 0x22] @ concat (map escape_char str) @ [CHR 0x22]"

fun digits :: "nat \<Rightarrow> nat \<Rightarrow> string" where
  "digits 0 n = []"
| "digits (Suc fuel) n =
     (if n < 10 then [hex_digit n] else digits fuel (n div 10) @ [hex_digit (n mod 10)])"

definition show_int :: "int \<Rightarrow> string" where
  "show_int i =
     (if i < 0 then ''-'' @ digits (Suc (nat (- i))) (nat (- i))
      else digits (Suc (nat i)) (nat i))"

fun join :: "string \<Rightarrow> string list \<Rightarrow> string" where
  "join sep [] = []"
| "join sep [x] = x"
| "join sep (x # y # ys) = x @ sep @ join sep (y # ys)"

fun stringify :: "json \<Rightarrow> string" where
  "stringify JNull = ''null''"
| "stringify (JBool b) = (if b then ''true'' else ''false'')"
| "stringify (JNum i) = show_int i"
| "stringify (JStr str) = quote str"
| "stringify (JArr xs) = ''['' @ join '','' (map stringify xs) @ '']''"
| "stringify (JObj kvs) =
     ''{'' @ join '','' (map (\<lambda>kv. quote (fst kv) @ '':'' @ stringify (snd kv)) kvs) @ ''}''"

text \<open>
  \<open>JSON.parse\<close> on the texts the examples below feed it: the literal \<open>null\<close>, the
  stringified confirmation signal for the id \<open>tx1\<close>, the stringified message inside that
  signal, the text of an object whose \<open>message\<close> is an object with a property
  \<open>toString\<close>, and texts that are not JSON.
\<close>

definition sample_message :: json where
  "sample_message =
     JObj [(''zh'',
            JStr ([CHR 0xE4, CHR 0xBA, CHR 0xA4, CHR 0xE6, CHR 0x98, CHR 0x93, CHR 0xE7,
                   CHR 0xAD, CHR 0x89, CHR 0xE5, CHR 0xBE, CHR 0x85, CHR 0xE7, CHR 0x94,
                   CHR 0xA8, CHR 0xE6, CHR 0x88, CHR 0xB7, CHR 0xE7, CHR 0xA1, CHR 0xAE,
                   CHR 0xE8, CHR 0xAE, CHR 0xA4] @ '' (ID: tx1)'')),
           (''en'', JStr ''Transaction pending confirmation (ID: tx1)'')]"

definition sample_signal :: json where
  "sample_signal =
     JObj [(''code'', JStr ''NEED_CONFIRMATION''),
           (''message'', JStr (stringify sample_message))]"

definition odd_signal :: json where
  "odd_signal =
     JObj [(''code'', JStr ''NEED_CONFIRMATION''),
           (''message'', JObj [(''toString'', JStr ''x'')])]"

definition sample_parse :: "string \<Rightarrow> json option" where
  "sample_parse txt =
     (if txt = ''null'' then Some JNull
      else if txt = stringify sample_signal then Some sample_signal
      else if txt = stringify sample_message then Some sample_message
      else if txt = stringify odd_signal then Some odd_signal
      else None)"

text \<open>The wording of V8 for the two \<open>TypeError\<close>s.\<close>

fun v8_message :: "type_error \<Rightarrow> string" where
  "v8_message (CannotRead v key) =
     ''Cannot read properties of ''
     @ (case v of None \<Rightarrow> ''undefined'' | Some j \<Rightarrow> ''null'')
     @ '' (reading '' @ [CHR 0x27] @ key @ [CHR 0x27] @ '')''"
| "v8_message CannotConvert = ''Cannot convert object to primitive value''"

definition sample_env :: js_env where
  "sample_env =
     \<lparr> JSON_parse = sample_parse, JSON_stringify = stringify,
       TypeError_message = v8_message \<rparr>"

text \<open>
  Wallets: one that answers every call with a hash, one that fails every call with an
  ordinary message, one that fails the first call made on it and answers the later ones,
  one whose failure message is the text of a confirmation signal, one whose failure
  message is the text \<open>null\<close>, and one whose failure message is the text of
  \<open>odd_signal\<close>.
\<close>

definition ok_wallet :: wallet where
  "ok_wallet calls c = Inr ''0xabc''"

definition failing_wallet :: wallet where
  "failing_wallet calls c = Inl (Error ''insufficient funds'')"

definition flaky_wallet :: wallet where
  "flaky_wallet calls c =
     (if calls = [] then Inl (Error ''insufficient funds'') else Inr ''0xabc'')"

definition signal_wallet :: wallet where
  "signal_wallet calls c = Inl (Error (stringify sample_signal))"

definition null_wallet :: wallet where
  "null_wallet calls c = Inl (Error ''null'')"

definition odd_wallet :: wallet where
  "odd_wallet calls c = Inl (Error (stringify odd_signal))"

definition sample_params :: jsval where
  "sample_params =
     Some (JObj [(''to'', JStr ''0x52908400098527886E0F7030069857D2E4169EE7''),
                 (''value'', JStr ''1000000000000000'')])"

definition no_fields :: jsval where
  "no_fields = Some (JObj [])"

definition token_params :: jsval where
  "token_params =
     Some (JObj [(''token'', JStr ''0x52908400098527886E0F7030069857D2E4169EE7''),
                 (''decimals'', JNum 18)])"

definition short_address_params :: jsval where
  "short_address_params = Some (JObj [(''to'', JStr ''0x123''), (''value'', JStr ''abc'')])"

text \<open>
  Servers: the default configuration; the tiers \<open>read\<close> and \<open>transaction\<close> with
  confirmation required; the tier \<open>transaction\<close> without confirmation; a configuration
  that passes \<open>allowedOperations: undefined\<close>. Each is started once. \<open>parked_server\<close>
  is the second one after a call to \<open>wallet_sendTransaction\<close> that drew the id \<open>tx1\<close>
  at time 1000.
\<close>

definition default_server :: server where
  "default_server =
     start (McpServer_new \<lparr> port_opt = Absent, allowedOperations_opt = Absent,
                            requireConfirmation_opt = Absent \<rparr>)"

definition tx_server :: server where
  "tx_server =
     start (McpServer_new \<lparr> port_opt = Absent,
                            allowedOperations_opt = Present [Read, Transaction],
                            requireConfirmation_opt = Present True \<rparr>)"

definition no_confirm_server :: server where
  "no_confirm_server =
     start (McpServer_new \<lparr> port_opt = Absent,
                            allowedOperations_opt = Present [Transaction],
                            requireConfirmation_opt = Present False \<rparr>)"

definition undefined_ops_server :: server where
  "undefined_ops_server =
     start (McpServer_new \<lparr> port_opt = Absent, allowedOperations_opt = Undefined,
                            requireConfirmation_opt = Absent \<rparr>)"

definition parked_server :: server where
  "parked_server =
     snd (call_tool sample_env ok_wallet ''tx1'' 1000 tx_server
            ''wallet_sendTransaction'' sample_params)"

definition parked_tx :: pending_tx where
  "parked_tx = \<lparr> params = sample_params, status = Pending, createdAt = 1000 \<rparr>"

section \<open>The examples, evaluated\<close>

lemmas tool_defs =
  getAddressTool_def getBalanceTool_def signTransactionTool_def getTokenBalanceTool_def
  sendTransactionTool_def

lemma tx_server_fields:
  "tools tx_server = [getAddressTool, getBalanceTool, sendTransactionTool]"
  "requireConfirmation (config tx_server)"
  "allows (config tx_server) Transaction"
  "pendingConfirmations tx_server = Map.empty"
  "wallet_calls tx_server = []"
  by (simp_all add: tx_server_def start_def registerTools_def McpServer_new_def
        merge_config_def allows_def)

lemma default_server_fields:
  "tools default_server
     = [getAddressTool, getBalanceTool, signTransactionTool, getTokenBalanceTool]"
  "pendingConfirmations default_server = Map.empty"
  "wallet_calls default_server = []"
  by (simp_all add: default_server_def start_def registerTools_def McpServer_new_def
        merge_config_def allows_def)

lemma no_confirm_server_fields:
  "tools no_confirm_server = []"
  "allows (config no_confirm_server) Transaction"
  "\<not> requireConfirmation (config no_confirm_server)"
  "wallet_calls no_confirm_server = []"
  by (simp_all add: no_confirm_server_def start_def registerTools_def McpServer_new_def
        merge_config_def allows_def)

lemma undefined_ops_server_fields:
  "tools undefined_ops_server = []"
  "allowedOperations (config undefined_ops_server) = None"
  by (simp_all add: undefined_ops_server_def start_def registerTools_def McpServer_new_def
        merge_config_def allows_def)

lemma sample_message_eq: "pending_message ''tx1'' = sample_message"
  by (simp add: pending_message_def sample_message_def zh_pending_def en_pending_def)

lemma sample_signal_eq: "need_confirmation sample_env ''tx1'' = sample_signal"
  by (simp add: need_confirmation_def sample_signal_def sample_env_def sample_message_eq)

lemma sample_parse_signal: "sample_parse (stringify sample_signal) = Some sample_signal"
  by (simp add: sample_parse_def sample_signal_def)

lemma sample_parse_message: "sample_parse (stringify sample_message) = Some sample_message"
  by (simp add: sample_parse_def sample_signal_def sample_message_def quote_def
        escape_char_def)

lemma sample_parse_odd: "sample_parse (stringify odd_signal) = Some odd_signal"
  by (simp add: sample_parse_def sample_signal_def sample_message_def odd_signal_def
        quote_def escape_char_def)

lemma sample_parse_null: "sample_parse ''null'' = Some JNull"
  by (simp add: sample_parse_def)

lemma sample_parse_not_found:
  "sample_parse ''Tool wallet_sendTransaction not found'' = None"
  by (simp add: sample_parse_def sample_signal_def sample_message_def odd_signal_def)

lemma log_sample_signal: "\<not> log_parsed_throws sample_signal"
  by (simp add: log_parsed_throws_def sample_signal_def template_throws_def)

lemma parked_server_fields:
  "pendingConfirmations parked_server = [''tx1'' \<mapsto> parked_tx]"
  "wallet_calls parked_server = []"
  "tools parked_server = tools tx_server"
  "config parked_server = config tx_server"
  by (simp_all add: parked_server_def call_tool_def tx_server_fields tool_defs
        sendTransaction_handler_def parked_tx_def)

lemma started_examples:
  "started default_server" "started tx_server" "started no_confirm_server"
  "started parked_server"
  by (simp_all add: started_def parked_server_fields default_server_def tx_server_def
        no_confirm_server_def start_def registerTools_def McpServer_new_def)

lemma valid_examples:
  "valid_params transaction_schema sample_params"
  "valid_params token_schema token_params"
  "valid_params empty_schema no_fields"
  "\<not> valid_params transaction_schema no_fields"
  "\<not> valid_params transaction_schema short_address_params"
  by (simp_all add: valid_params_def sample_params_def token_params_def no_fields_def
        short_address_params_def transaction_schema_def token_schema_def empty_schema_def
        entry_ok_def prop_ok_def is_hex_def is_digit_def)

section \<open>Facts about registration and valid parameters\<close>

lemma started_tools:
  "started s \<Longrightarrow> tools s = filter (registered (config s)) all_tools"
  by (simp add: started_def registerTools_def all_tools_def registered_def tool_tier_def
        tool_defs)

lemma find_sendTransaction:
  assumes "started s"
  shows "find (\<lambda>t. name t = ''wallet_sendTransaction'') (tools s)
           = (if allows (config s) Transaction \<and> requireConfirmation (config s)
              then Some sendTransactionTool else None)"
  using assms by (simp add: started_def registerTools_def tool_defs)

lemma started_tool_cases:
  assumes "started s" and "find (\<lambda>t. name t = nm) (tools s) = Some t"
  shows "t \<in> set all_tools \<and> name t = nm"
proof -
  from assms(2) have "t \<in> set (tools s)" and "name t = nm"
    by (auto simp: find_Some_iff in_set_conv_nth)
  with started_tools [OF assms(1)] show ?thesis by simp
qed

lemma started_after_start: "started (start (McpServer_new sc))"
  by (simp add: started_def start_def registerTools_def McpServer_new_def)

lemma call_tool_keeps_registry:
  "tools (snd (call_tool E W txId now s nm ps)) = tools s \<and>
   config (snd (call_tool E W txId now s nm ps)) = config s"
proof (cases "find (\<lambda>t. name t = nm) (tools s)")
  case None
  then show ?thesis by (simp add: call_tool_def)
next
  case (Some t)
  then show ?thesis
    by (cases "handler t")
       (auto simp: call_tool_def getAddress_handler_def getBalance_handler_def
          signTransaction_handler_def getTokenBalance_handler_def
          sendTransaction_handler_def call_wallet_def
          split: sum.splits if_splits)
qed

lemma confirm_reject_keep_registry:
  "tools (snd (confirmTransaction W s txId)) = tools s"
  "config (snd (confirmTransaction W s txId)) = config s"
  "tools (snd (rejectTransaction s txId)) = tools s"
  "config (snd (rejectTransaction s txId)) = config s"
  by (simp_all add: confirmTransaction_def rejectTransaction_def call_wallet_def
        split: option.splits)

lemma started_invariant:
  assumes "started s"
  shows "started (snd (call_tool E W txId now s nm ps))"
    and "started (snd (confirmTransaction W s txId))"
    and "started (snd (rejectTransaction s txId))"
  using assms
  by (simp_all add: started_def registerTools_def call_tool_keeps_registry
        confirm_reject_keep_registry)

lemma names_not_sorted: "\<not> sorted (map name all_tools)"
  by (simp add: all_tools_def tool_defs less_char_def)

lemma required_key:
  assumes "k \<in> fst ` set kvs" and "list_all (entry_ok sch) kvs"
      and "map_of (properties sch) k = Some p"
  shows "\<exists>v. map_of kvs k = Some v \<and> prop_ok p v"
proof -
  from assms(1) obtain v where v: "map_of kvs k = Some v"
    by (cases "map_of kvs k") (auto simp: map_of_eq_None_iff)
  then have "(k, v) \<in> set kvs" by (rule map_of_SomeD)
  with assms(2) have "entry_ok sch (k, v)" by (simp add: list_all_iff)
  with assms(3) have "prop_ok p v" by (simp add: entry_ok_def)
  with v show ?thesis by blast
qed

lemma valid_params_object:
  "valid_params sch ps \<Longrightarrow> \<exists>kvs. ps = Some (JObj kvs)"
  by (auto simp: valid_params_def split: option.splits json.splits)

lemma valid_transaction_to:
  assumes "valid_params transaction_schema ps"
  shows "\<exists>kvs a. ps = Some (JObj kvs) \<and> map_of kvs ''to'' = Some (JStr a)"
proof -
  from assms obtain kvs where ps: "ps = Some (JObj kvs)"
    using valid_params_object by blast
  with assms have k: "''to'' \<in> fst ` set kvs"
    and e: "list_all (entry_ok transaction_schema) kvs"
    by (simp_all add: valid_params_def transaction_schema_def)
  have "map_of (properties transaction_schema) ''to''
          = Some \<lparr> ptype = TString, ppattern = Some AddressPattern \<rparr>"
    by (simp add: transaction_schema_def)
  from required_key [OF k e this] obtain v
    where v: "map_of kvs ''to'' = Some v" and "has_type TString v"
    by (auto simp: prop_ok_def)
  then obtain a where "v = JStr a" by (cases v) simp_all
  with ps v show ?thesis by blast
qed

lemma valid_token_token:
  assumes "valid_params token_schema ps"
  shows "\<exists>kvs a. ps = Some (JObj kvs) \<and> map_of kvs ''token'' = Some (JStr a)"
proof -
  from assms obtain kvs where ps: "ps = Some (JObj kvs)"
    using valid_params_object by blast
  with assms have k: "''token'' \<in> fst ` set kvs"
    and e: "list_all (entry_ok token_schema) kvs"
    by (simp_all add: valid_params_def token_schema_def)
  have "map_of (properties token_schema) ''token''
          = Some \<lparr> ptype = TString, ppattern = Some AddressPattern \<rparr>"
    by (simp add: token_schema_def)
  from required_key [OF k e this] obtain v
    where v: "map_of kvs ''token'' = Some v" and "has_type TString v"
    by (auto simp: prop_ok_def)
  then obtain a where "v = JStr a" by (cases v) simp_all
  with ps v show ?thesis by blast
qed

lemma id_between_pending: "id_between (en_pending @ txId @ '')'') = Some txId"
  by (simp add: id_between_def butlast_append)

lemma pending_message_literal:
  "JObj [(''zh'',
          JStr ([CHR 0xE4, CHR 0xBA, CHR 0xA4, CHR 0xE6, CHR 0x98, CHR 0x93, CHR 0xE7,
                 CHR 0xAD, CHR 0x89, CHR 0xE5, CHR 0xBE, CHR 0x85, CHR 0xE7, CHR 0x94,
                 CHR 0xA8, CHR 0xE6, CHR 0x88, CHR 0xB7, CHR 0xE7, CHR 0xA1, CHR 0xAE,
                 CHR 0xE8, CHR 0xAE, CHR 0xA4] @ '' (ID: '' @ txId @ '')'')),
         (''en'', JStr (''Transaction pending confirmation (ID: '' @ txId @ '')''))]
     = pending_message txId"
  by (simp add: pending_message_def zh_pending_def en_pending_def)

lemma log_parsed_throws_iff:
  "log_parsed_throws j
     = (j = JNull \<or>
        (\<exists>kvs v. j = JObj kvs \<and> map_of kvs ''message'' = Some v \<and> to_string_throws v))"
  by (cases j) (auto simp: log_parsed_throws_def template_throws_def split: option.splits)

section \<open>Confirming the same id twice\<close>

text \<open>
  Claim C1, as the specification states it: of two calls to confirm on the same id,
  exactly one succeeds and executes the deferred call, and the other fails with
  AlreadyResolved without executing it again.

  \<open>confirmTransaction\<close> looks the id up and never reads the entry's status. Two confirms
  of the parked call of the example both return the wallet's hash, and the wallet is
  asked to send twice.
\<close>

theorem confirm_twice_counterexample:
  "pendingConfirmations parked_server ''tx1'' = Some parked_tx \<and>
   fst (confirm_twice ok_wallet parked_server ''tx1'') = Inr ''0xabc'' \<and>
   fst (snd (confirm_twice ok_wallet parked_server ''tx1'')) = Inr ''0xabc'' \<and>
   wallet_calls (snd (snd (confirm_twice ok_wallet parked_server ''tx1'')))
     = [SendTransaction sample_params, SendTransaction sample_params]"
  by (simp add: confirm_twice_def confirmTransaction_def call_wallet_def
        parked_server_fields ok_wallet_def parked_tx_def)

text \<open>
  Claim C1, amended. A confirm on an id that is in the pending map, whatever the status
  of its entry, stores the status \<open>confirmed\<close>, issues the stored call to the wallet once
  and returns the wallet's outcome. A confirm on an id that is not in the map fails with
  the not-found error, calls nothing and changes nothing.
\<close>

theorem confirm_executes_stored_call:
  "(pendingConfirmations s txId = Some p \<longrightarrow>
      fst (confirmTransaction W s txId) = W (wallet_calls s) (SendTransaction (params p)) \<and>
      wallet_calls (snd (confirmTransaction W s txId))
        = wallet_calls s @ [SendTransaction (params p)] \<and>
      pendingConfirmations (snd (confirmTransaction W s txId))
        = (pendingConfirmations s)(txId \<mapsto> p\<lparr> status := Confirmed \<rparr>)) \<and>
   (pendingConfirmations s txId = None \<longrightarrow>
      confirmTransaction W s txId = (Inl (Error (not_found_tx txId)), s))"
  by (simp add: confirmTransaction_def call_wallet_def)

theorem confirm_executes_stored_call_witness:
  "pendingConfirmations parked_server ''tx1'' = Some parked_tx \<and>
   fst (confirmTransaction ok_wallet parked_server ''tx1'') = Inr ''0xabc'' \<and>
   wallet_calls (snd (confirmTransaction ok_wallet parked_server ''tx1''))
     = [SendTransaction sample_params] \<and>
   pendingConfirmations (snd (confirmTransaction ok_wallet parked_server ''tx1'')) ''tx1''
     = Some (parked_tx\<lparr> status := Confirmed \<rparr>) \<and>
   pendingConfirmations parked_server ''tx2'' = None \<and>
   confirmTransaction ok_wallet parked_server ''tx2''
     = (Inl (Error ''Transaction with ID tx2 not found''), parked_server)"
proof -
  have h1: "pendingConfirmations parked_server ''tx1'' = Some parked_tx"
    by (simp add: parked_server_fields)
  have h2: "pendingConfirmations parked_server ''tx2'' = None"
    by (simp add: parked_server_fields)
  show ?thesis
    using h1 h2
      confirm_executes_stored_call [of parked_server "''tx1''" parked_tx ok_wallet]
      confirm_executes_stored_call [of parked_server "''tx2''" parked_tx ok_wallet]
    by (simp add: parked_server_fields ok_wallet_def parked_tx_def not_found_tx_def)
qed

section \<open>Rejecting an entry that is already resolved\<close>

text \<open>
  Claim C2, as the specification states it: a reject on an id whose entry is already in
  a terminal status, in particular after a confirm, fails with AlreadyResolved and does
  not change the status.

  \<open>rejectTransaction\<close> does not read the status either. After the parked call of the
  example has been confirmed and sent, a reject returns normally and the entry becomes
  \<open>rejected\<close>.
\<close>

theorem reject_after_confirm_counterexample:
  "fst (confirm_then_reject ok_wallet parked_server ''tx1'') = Inr ''0xabc'' \<and>
   fst (snd (confirm_then_reject ok_wallet parked_server ''tx1'')) = Inr () \<and>
   pendingConfirmations (snd (snd (confirm_then_reject ok_wallet parked_server ''tx1''))) ''tx1''
     = Some (parked_tx\<lparr> status := Rejected \<rparr>)"
  by (simp add: confirm_then_reject_def confirmTransaction_def rejectTransaction_def
        call_wallet_def parked_server_fields ok_wallet_def)

text \<open>
  Claim C2, amended. A reject on an id that is in the pending map, whatever the status
  of its entry, returns normally, stores the status \<open>rejected\<close> and does not call the
  wallet. A reject on an id that is not in the map fails with the not-found error and
  changes nothing.
\<close>

theorem reject_overwrites_status:
  "(pendingConfirmations s txId = Some p \<longrightarrow>
      fst (rejectTransaction s txId) = Inr () \<and>
      pendingConfirmations (snd (rejectTransaction s txId))
        = (pendingConfirmations s)(txId \<mapsto> p\<lparr> status := Rejected \<rparr>) \<and>
      wallet_calls (snd (rejectTransaction s txId)) = wallet_calls s) \<and>
   (pendingConfirmations s txId = None \<longrightarrow>
      rejectTransaction s txId = (Inl (Error (not_found_tx txId)), s))"
  by (simp add: rejectTransaction_def)

theorem reject_overwrites_status_witness:
  "pendingConfirmations (snd (confirmTransaction ok_wallet parked_server ''tx1'')) ''tx1''
     = Some (parked_tx\<lparr> status := Confirmed \<rparr>) \<and>
   fst (rejectTransaction (snd (confirmTransaction ok_wallet parked_server ''tx1'')) ''tx1'')
     = Inr () \<and>
   pendingConfirmations
     (snd (rejectTransaction (snd (confirmTransaction ok_wallet parked_server ''tx1'')) ''tx1''))
     ''tx1'' = Some (parked_tx\<lparr> status := Rejected \<rparr>) \<and>
   pendingConfirmations parked_server ''tx2'' = None \<and>
   fst (rejectTransaction parked_server ''tx2'')
     = Inl (Error ''Transaction with ID tx2 not found'')"
proof -
  let ?s = "snd (confirmTransaction ok_wallet parked_server ''tx1'')"
  have h1: "pendingConfirmations ?s ''tx1'' = Some (parked_tx\<lparr> status := Confirmed \<rparr>)"
    by (simp add: confirmTransaction_def call_wallet_def parked_server_fields)
  have h2: "pendingConfirmations parked_server ''tx2'' = None"
    by (simp add: parked_server_fields)
  show ?thesis
    using h1 h2
      reject_overwrites_status [of ?s "''tx1''" "parked_tx\<lparr> status := Confirmed \<rparr>"]
      reject_overwrites_status [of parked_server "''tx2''" parked_tx]
    by (simp add: not_found_tx_def)
qed

section \<open>Old entries\<close>

text \<open>
  Claim C4, as the specification states it: once a pending call is older than the
  expiry window, confirm and reject on its id fail with NotFound, the age being checked
  at access time.

  Neither method reads \<open>createdAt\<close> or the clock, and nothing removes an entry. The
  parked call of the example was created at time 1000; at time 9999999, with a window
  of 60000, it is still confirmed and sent, and it can still be rejected.
\<close>

theorem expired_entry_counterexample:
  "pendingConfirmations parked_server ''tx1'' = Some parked_tx \<and>
   status parked_tx = Pending \<and>
   expired 60000 9999999 parked_tx \<and>
   fst (confirmTransaction ok_wallet parked_server ''tx1'') = Inr ''0xabc'' \<and>
   fst (rejectTransaction parked_server ''tx1'') = Inr ()"
  by (simp add: confirmTransaction_def rejectTransaction_def call_wallet_def
        parked_server_fields ok_wallet_def parked_tx_def expired_def)

text \<open>
  Claim C4, amended. Confirm and reject fail with the not-found error when the id is not
  in the pending map. For an id that is in the map their result does not depend on the
  entry's \<open>createdAt\<close>: confirm returns the wallet's outcome and reject returns
  normally, however old the entry is.
\<close>

theorem confirm_reject_ignore_age:
  "(pendingConfirmations s txId = Some p \<longrightarrow>
      fst (confirmTransaction W
             (s\<lparr> pendingConfirmations :=
                  (pendingConfirmations s)(txId \<mapsto> p\<lparr> createdAt := t \<rparr>) \<rparr>)
             txId)
        = fst (confirmTransaction W s txId) \<and>
      fst (confirmTransaction W s txId) = W (wallet_calls s) (SendTransaction (params p)) \<and>
      fst (rejectTransaction
             (s\<lparr> pendingConfirmations :=
                  (pendingConfirmations s)(txId \<mapsto> p\<lparr> createdAt := t \<rparr>) \<rparr>)
             txId)
        = Inr ()) \<and>
   (pendingConfirmations s txId = None \<longrightarrow>
      fst (confirmTransaction W s txId) = Inl (Error (not_found_tx txId)) \<and>
      fst (rejectTransaction s txId) = Inl (Error (not_found_tx txId)))"
  by (simp add: confirmTransaction_def rejectTransaction_def call_wallet_def)

theorem confirm_reject_ignore_age_witness:
  "pendingConfirmations parked_server ''tx1'' = Some parked_tx \<and>
   fst (confirmTransaction ok_wallet
          (parked_server\<lparr> pendingConfirmations :=
             (pendingConfirmations parked_server)
               (''tx1'' \<mapsto> parked_tx\<lparr> createdAt := 0 \<rparr>) \<rparr>)
          ''tx1'')
     = Inr ''0xabc'' \<and>
   pendingConfirmations parked_server ''tx2'' = None \<and>
   fst (confirmTransaction ok_wallet parked_server ''tx2'')
     = Inl (Error ''Transaction with ID tx2 not found'')"
proof -
  have h1: "pendingConfirmations parked_server ''tx1'' = Some parked_tx"
    by (simp add: parked_server_fields)
  have h2: "pendingConfirmations parked_server ''tx2'' = None"
    by (simp add: parked_server_fields)
  show ?thesis
    using h1 h2
      confirm_reject_ignore_age [of parked_server "''tx1''" parked_tx ok_wallet 0]
      confirm_reject_ignore_age [of parked_server "''tx2''" parked_tx ok_wallet 0]
    by (simp add: ok_wallet_def not_found_tx_def)
qed

section \<open>confirmTransaction when the wallet fails\<close>

text \<open>
  Claim C7, as the specification states it: if the capability call issued by confirm
  fails, the pending entry stays \<open>confirmed\<close>, a terminal status, and is not re-armed
  for retry, and confirm passes the capability's failure on to the caller.

  The entry does read \<open>confirmed\<close> after the failure, but nothing reads that status. With
  a wallet that fails once, a second confirm on the same id sends the stored call again
  and returns its hash; and after a failed confirm a reject returns normally and the
  entry becomes \<open>rejected\<close>.
\<close>

theorem failed_confirm_retry_counterexample:
  "pendingConfirmations parked_server ''tx1'' = Some parked_tx \<and>
   fst (confirm_twice flaky_wallet parked_server ''tx1'') = Inl (Error ''insufficient funds'') \<and>
   fst (snd (confirm_twice flaky_wallet parked_server ''tx1'')) = Inr ''0xabc'' \<and>
   wallet_calls (snd (snd (confirm_twice flaky_wallet parked_server ''tx1'')))
     = [SendTransaction sample_params, SendTransaction sample_params] \<and>
   fst (confirm_then_reject failing_wallet parked_server ''tx1'')
     = Inl (Error ''insufficient funds'') \<and>
   fst (snd (confirm_then_reject failing_wallet parked_server ''tx1'')) = Inr () \<and>
   pendingConfirmations (snd (snd (confirm_then_reject failing_wallet parked_server ''tx1'')))
     ''tx1'' = Some (parked_tx\<lparr> status := Rejected \<rparr>)"
  by (simp add: confirm_twice_def confirm_then_reject_def confirmTransaction_def
        rejectTransaction_def call_wallet_def parked_server_fields flaky_wallet_def
        failing_wallet_def parked_tx_def)

text \<open>
  Claim C7, amended. If the capability call issued by confirm fails, confirm passes the
  capability's failure on to the caller and the entry's status reads \<open>confirmed\<close>, not
  \<open>pending\<close>. That status is not terminal: a further confirm on the same id calls the
  capability again with the stored parameters and returns its outcome, and a reject
  returns normally and sets the status to \<open>rejected\<close>.
\<close>

theorem failed_confirm_not_terminal:
  assumes "pendingConfirmations s txId = Some p"
      and "W (wallet_calls s) (SendTransaction (params p)) = Inl e"
  shows "fst (confirmTransaction W s txId) = Inl e \<and>
         pendingConfirmations (snd (confirmTransaction W s txId)) txId
           = Some (p\<lparr> status := Confirmed \<rparr>) \<and>
         fst (snd (confirm_twice W s txId))
           = W (wallet_calls s @ [SendTransaction (params p)]) (SendTransaction (params p)) \<and>
         wallet_calls (snd (snd (confirm_twice W s txId)))
           = wallet_calls s @ [SendTransaction (params p), SendTransaction (params p)] \<and>
         fst (snd (confirm_then_reject W s txId)) = Inr () \<and>
         pendingConfirmations (snd (snd (confirm_then_reject W s txId))) txId
           = Some (p\<lparr> status := Rejected \<rparr>)"
  using assms
  by (simp add: confirm_twice_def confirm_then_reject_def confirmTransaction_def
        rejectTransaction_def call_wallet_def)

theorem failed_confirm_not_terminal_witness:
  "pendingConfirmations parked_server ''tx1'' = Some parked_tx \<and>
   flaky_wallet (wallet_calls parked_server) (SendTransaction (params parked_tx))
     = Inl (Error ''insufficient funds'') \<and>
   fst (confirmTransaction flaky_wallet parked_server ''tx1'')
     = Inl (Error ''insufficient funds'') \<and>
   pendingConfirmations (snd (confirmTransaction flaky_wallet parked_server ''tx1'')) ''tx1''
     = Some (parked_tx\<lparr> status := Confirmed \<rparr>) \<and>
   fst (snd (confirm_twice flaky_wallet parked_server ''tx1'')) = Inr ''0xabc'' \<and>
   pendingConfirmations (snd (snd (confirm_then_reject flaky_wallet parked_server ''tx1'')))
     ''tx1'' = Some (parked_tx\<lparr> status := Rejected \<rparr>)"
proof -
  have h1: "pendingConfirmations parked_server ''tx1'' = Some parked_tx"
    by (simp add: parked_server_fields)
  have h2: "flaky_wallet (wallet_calls parked_server) (SendTransaction (params parked_tx))
              = Inl (Error ''insufficient funds'')"
    by (simp add: flaky_wallet_def parked_server_fields)
  show ?thesis
    using h1 h2
      failed_confirm_not_terminal
        [of parked_server "''tx1''" parked_tx flaky_wallet "Error ''insufficient funds''"]
    by (simp add: flaky_wallet_def parked_server_fields)
qed

section \<open>A transaction call under requireConfirmation\<close>

text \<open>
  Claim C5. For every valid call to a transaction-tier tool while \<open>requireConfirmation\<close>
  is true, the call does not execute the capability; it returns the confirmation signal
  carrying a confirmation id, and a freshly created pending entry for that id, with
  status \<open>pending\<close>, is in the store.

  The server has been started, the transaction tier is allowed, and \<open>JSON.parse\<close> reads
  back the two texts that \<open>JSON.stringify\<close> wrote for this id: the signal and the
  message inside it. The response is the object with code \<open>NEED_CONFIRMATION\<close> whose
  message is the text of the Chinese and the English sentence, each with the id between
  \<open>(ID: \<close> and the closing bracket; reading the id back out of the response gives the
  id under which the entry was stored; the wallet has not been called; the entry holds
  the parameters as received. This holds for all parameters, the valid ones among them.
\<close>

theorem transaction_call_is_parked:
  assumes "started s"
      and "allows (config s) Transaction"
      and "requireConfirmation (config s)"
      and "JSON_parse E (JSON_stringify E (need_confirmation E txId))
             = Some (need_confirmation E txId)"
      and "JSON_parse E (JSON_stringify E (pending_message txId))
             = Some (pending_message txId)"
  shows "fst (call_tool E W txId now s ''wallet_sendTransaction'' ps)
           = ErrorResponse
               (JObj [(''code'', JStr ''NEED_CONFIRMATION''),
                      (''message'',
                       JStr (JSON_stringify E
                         (JObj [(''zh'',
                                 JStr ([CHR 0xE4, CHR 0xBA, CHR 0xA4, CHR 0xE6, CHR 0x98,
                                        CHR 0x93, CHR 0xE7, CHR 0xAD, CHR 0x89, CHR 0xE5,
                                        CHR 0xBE, CHR 0x85, CHR 0xE7, CHR 0x94, CHR 0xA8,
                                        CHR 0xE6, CHR 0x88, CHR 0xB7, CHR 0xE7, CHR 0xA1,
                                        CHR 0xAE, CHR 0xE8, CHR 0xAE, CHR 0xA4]
                                       @ '' (ID: '' @ txId @ '')'')),
                                (''en'',
                                 JStr (''Transaction pending confirmation (ID: ''
                                       @ txId @ '')''))])))]) \<and>
         signal_id E (fst (call_tool E W txId now s ''wallet_sendTransaction'' ps))
           = Some txId \<and>
         wallet_calls (snd (call_tool E W txId now s ''wallet_sendTransaction'' ps))
           = wallet_calls s \<and>
         pendingConfirmations (snd (call_tool E W txId now s ''wallet_sendTransaction'' ps))
           = (pendingConfirmations s)
               (txId \<mapsto> \<lparr> params = ps, status = Pending, createdAt = now \<rparr>)"
proof -
  have r: "call_tool E W txId now s ''wallet_sendTransaction'' ps
             = (ErrorResponse (need_confirmation E txId),
                s\<lparr> pendingConfirmations := (pendingConfirmations s)
                     (txId \<mapsto> \<lparr> params = ps, status = Pending, createdAt = now \<rparr>) \<rparr>)"
    using assms(1-4)
    by (simp add: call_tool_def find_sendTransaction sendTransactionTool_def
          sendTransaction_handler_def error_response_def log_parsed_throws_def
          need_confirmation_def template_throws_def)
  have i: "signal_id E (ErrorResponse (need_confirmation E txId)) = Some txId"
    using assms(5)
    by (simp add: signal_id_def need_confirmation_def)
       (simp add: pending_message_def id_between_pending)
  show ?thesis
    unfolding pending_message_literal
    using r i by (simp add: need_confirmation_def)
qed

theorem transaction_call_is_parked_witness:
  "started tx_server \<and>
   allows (config tx_server) Transaction \<and>
   requireConfirmation (config tx_server) \<and>
   JSON_parse sample_env (JSON_stringify sample_env (need_confirmation sample_env ''tx1''))
     = Some (need_confirmation sample_env ''tx1'') \<and>
   JSON_parse sample_env (JSON_stringify sample_env (pending_message ''tx1''))
     = Some (pending_message ''tx1'') \<and>
   valid_params (inputSchema sendTransactionTool) sample_params \<and>
   fst (call_tool sample_env ok_wallet ''tx1'' 1000 tx_server
          ''wallet_sendTransaction'' sample_params)
     = ErrorResponse sample_signal \<and>
   signal_id sample_env
     (fst (call_tool sample_env ok_wallet ''tx1'' 1000 tx_server
             ''wallet_sendTransaction'' sample_params))
     = Some ''tx1'' \<and>
   wallet_calls (snd (call_tool sample_env ok_wallet ''tx1'' 1000 tx_server
                        ''wallet_sendTransaction'' sample_params)) = [] \<and>
   pendingConfirmations (snd (call_tool sample_env ok_wallet ''tx1'' 1000 tx_server
                                ''wallet_sendTransaction'' sample_params)) ''tx1''
     = Some \<lparr> params = sample_params, status = Pending, createdAt = 1000 \<rparr>"
proof -
  have h1: "JSON_parse sample_env (JSON_stringify sample_env (need_confirmation sample_env ''tx1''))
             = Some (need_confirmation sample_env ''tx1'')"
    by (simp add: sample_signal_eq) (simp add: sample_env_def sample_parse_signal)
  have h2: "JSON_parse sample_env (JSON_stringify sample_env (pending_message ''tx1''))
             = Some (pending_message ''tx1'')"
    by (simp add: sample_message_eq) (simp add: sample_env_def sample_parse_message)
  have v: "valid_params (inputSchema sendTransactionTool) sample_params"
    by (simp add: sendTransactionTool_def valid_examples)
  note t = transaction_call_is_parked
             [OF started_examples(2) tx_server_fields(3) tx_server_fields(2) h1 h2,
              of ok_wallet 1000 sample_params]
  have e: "fst (call_tool sample_env ok_wallet ''tx1'' 1000 tx_server
                  ''wallet_sendTransaction'' sample_params) = ErrorResponse sample_signal"
    using t by (simp add: sample_signal_def sample_message_def sample_env_def)
  from t have i: "signal_id sample_env
                    (fst (call_tool sample_env ok_wallet ''tx1'' 1000 tx_server
                            ''wallet_sendTransaction'' sample_params)) = Some ''tx1''"
    and w: "wallet_calls (snd (call_tool sample_env ok_wallet ''tx1'' 1000 tx_server
                                 ''wallet_sendTransaction'' sample_params)) = wallet_calls tx_server"
    and p: "pendingConfirmations (snd (call_tool sample_env ok_wallet ''tx1'' 1000 tx_server
                                         ''wallet_sendTransaction'' sample_params))
              = (pendingConfirmations tx_server)
                  (''tx1'' \<mapsto> \<lparr> params = sample_params, status = Pending, createdAt = 1000 \<rparr>)"
    by blast+
  from p have p': "pendingConfirmations (snd (call_tool sample_env ok_wallet ''tx1'' 1000 tx_server
                                         ''wallet_sendTransaction'' sample_params)) ''tx1''
              = Some \<lparr> params = sample_params, status = Pending, createdAt = 1000 \<rparr>"
    by simp
  from w have w': "wallet_calls (snd (call_tool sample_env ok_wallet ''tx1'' 1000 tx_server
                                 ''wallet_sendTransaction'' sample_params)) = []"
    by (simp add: tx_server_fields)
  from started_examples(2) tx_server_fields(3) tx_server_fields(2) h1 h2 v e i w' p'
  show ?thesis by (intro conjI)
qed

section \<open>The transaction tier without requireConfirmation\<close>

text \<open>
  Claim C6, as the specification states it: if the transaction tier is enabled and
  \<open>requireConfirmation\<close> is false, a valid transaction call executes at once through the
  capability provider and returns its result, with no unknown-tool failure.

  \<open>registerTools\<close> pushes \<open>wallet_sendTransaction\<close> only under
  \<open>allowedOperations.includes('transaction') && requireConfirmation\<close>. With the tier
  allowed and the flag false the tool list is empty: the call gets the not-found error and
  the wallet is not called.
\<close>

theorem no_confirmation_counterexample:
  "allows (config no_confirm_server) Transaction \<and>
   \<not> requireConfirmation (config no_confirm_server) \<and>
   valid_params (inputSchema sendTransactionTool) sample_params \<and>
   call_tool sample_env ok_wallet ''tx1'' 1000 no_confirm_server
       ''wallet_sendTransaction'' sample_params
     = (tool_error ''Tool wallet_sendTransaction not found'', no_confirm_server) \<and>
   wallet_calls no_confirm_server = []"
  by (simp add: no_confirm_server_fields call_tool_def not_found_tool_def error_response_def
        sample_env_def sample_parse_not_found sendTransactionTool_def valid_examples)

text \<open>
  Claim C6, amended. If \<open>requireConfirmation\<close> is false, no transaction tool is
  registered, whether or not the transaction tier is allowed: a call to
  \<open>wallet_sendTransaction\<close> is answered with the error for the message
  \<open>Tool wallet_sendTransaction not found\<close> (code \<open>TOOL_ERROR\<close>, as that message is not
  JSON), the capability provider is not called and no pending entry is created.
\<close>

theorem no_confirmation_no_tool:
  assumes "started s"
      and "\<not> requireConfirmation (config s)"
  shows "call_tool E W txId now s ''wallet_sendTransaction'' ps
           = (error_response E (Error ''Tool wallet_sendTransaction not found''), s) \<and>
         (JSON_parse E ''Tool wallet_sendTransaction not found'' = None \<longrightarrow>
            fst (call_tool E W txId now s ''wallet_sendTransaction'' ps)
              = tool_error ''Tool wallet_sendTransaction not found'')"
  using assms
  by (simp add: call_tool_def find_sendTransaction not_found_tool_def error_response_def)

theorem no_confirmation_no_tool_witness:
  "started no_confirm_server \<and>
   \<not> requireConfirmation (config no_confirm_server) \<and>
   JSON_parse sample_env ''Tool wallet_sendTransaction not found'' = None \<and>
   call_tool sample_env ok_wallet ''tx1'' 1000 no_confirm_server
       ''wallet_sendTransaction'' sample_params
     = (tool_error ''Tool wallet_sendTransaction not found'', no_confirm_server)"
proof -
  have p: "JSON_parse sample_env ''Tool wallet_sendTransaction not found'' = None"
    by (simp add: sample_env_def sample_parse_not_found)
  show ?thesis
    using p started_examples(3) no_confirm_server_fields(3)
      no_confirmation_no_tool
        [of no_confirm_server sample_env ok_wallet "''tx1''" 1000 sample_params]
    by (simp add: error_response_def)
qed

section \<open>Listing the tools\<close>

text \<open>
  Claim C9, as the specification states it: two listings return the same sequence, and
  that sequence is exactly the descriptors of the enabled tiers in registration order.

  With the transaction tier allowed and \<open>requireConfirmation\<close> false, the descriptor of
  the transaction tier is not listed.
\<close>

theorem listing_counterexample:
  "allows (config no_confirm_server) Transaction \<and>
   fst (list_tools no_confirm_server) = [] \<and>
   enabled_descriptors (config no_confirm_server) = [sendTransactionTool]"
  by (simp add: list_tools_def no_confirm_server_fields enabled_descriptors_def all_tools_def
        tool_tier_def tool_defs)
     (simp add: no_confirm_server_def start_def McpServer_new_def registerTools_def
        merge_config_def allows_def)

text \<open>
  Claim C9, amended. Without a change to the registry two listings return the same
  sequence, and for a started server that sequence is exactly the registered
  descriptors in registration order: the read tools, then prepare, then info, then
  transaction, where a descriptor is registered when its tier is allowed and, for the
  transaction tier, \<open>requireConfirmation\<close> is true as well. The order of the names is not
  alphabetical.
\<close>

theorem listing_is_registration_order:
  assumes "started s"
  shows "fst (list_tools s) = filter (registered (config s)) all_tools \<and>
         list_tools (snd (list_tools s)) = list_tools s \<and>
         map name all_tools
           = [''wallet_getAddress'', ''wallet_getBalance'', ''wallet_signTransaction'',
              ''wallet_getTokenBalance'', ''wallet_sendTransaction''] \<and>
         map tool_tier all_tools = [Read, Read, Prepare, Info, Transaction] \<and>
         \<not> sorted (map name all_tools)"
  using assms names_not_sorted
  by (simp add: list_tools_def started_tools) (simp add: all_tools_def tool_defs tool_tier_def)

theorem listing_is_registration_order_witness:
  "started tx_server \<and>
   fst (list_tools tx_server) = [getAddressTool, getBalanceTool, sendTransactionTool] \<and>
   filter (registered (config tx_server)) all_tools
     = [getAddressTool, getBalanceTool, sendTransactionTool] \<and>
   fst (list_tools (snd (list_tools tx_server))) = fst (list_tools tx_server) \<and>
   started default_server \<and>
   filter (registered (config default_server)) all_tools
     = [getAddressTool, getBalanceTool, signTransactionTool, getTokenBalanceTool]"
proof -
  have a: "fst (list_tools tx_server) = [getAddressTool, getBalanceTool, sendTransactionTool]"
    by (simp add: list_tools_def tx_server_fields)
  have b: "fst (list_tools default_server)
             = [getAddressTool, getBalanceTool, signTransactionTool, getTokenBalanceTool]"
    by (simp add: list_tools_def default_server_fields)
  from listing_is_registration_order [OF started_examples(2)]
  have c: "fst (list_tools tx_server) = filter (registered (config tx_server)) all_tools"
    and d: "list_tools (snd (list_tools tx_server)) = list_tools tx_server"
    by blast+
  from listing_is_registration_order [OF started_examples(1)]
  have e: "fst (list_tools default_server)
             = filter (registered (config default_server)) all_tools"
    by blast
  from a b c d e started_examples(1,2) show ?thesis by metis
qed

section \<open>Parameters that do not fit the schema\<close>

text \<open>
  Claim C3, as the specification states it: a tool call whose parameters miss a required
  field, or whose address or amount fails its pattern, returns InvalidParameters and the
  capability provider is never called for it.

  The call-tool handler passes \<open>params\<close> to the tool's handler without looking at the
  input schema. \<open>wallet_signTransaction\<close> with no fields at all is signed by the wallet and
  returns a result; with a three-digit address and the amount \<open>abc\<close> the wallet is called
  as well; \<open>wallet_sendTransaction\<close> with those parameters is parked and answered with the
  confirmation signal.
\<close>

theorem unvalidated_call_counterexample:
  "\<not> valid_params (inputSchema signTransactionTool) no_fields \<and>
   fst (call_tool sample_env ok_wallet ''tx1'' 1000 default_server
          ''wallet_signTransaction'' no_fields)
     = Result (JObj [(''signedTransaction'', JStr ''0xabc'')]) \<and>
   wallet_calls (snd (call_tool sample_env ok_wallet ''tx1'' 1000 default_server
                        ''wallet_signTransaction'' no_fields))
     = [SignTransaction no_fields] \<and>
   \<not> valid_params (inputSchema signTransactionTool) short_address_params \<and>
   wallet_calls (snd (call_tool sample_env ok_wallet ''tx1'' 1000 default_server
                        ''wallet_signTransaction'' short_address_params))
     = [SignTransaction short_address_params] \<and>
   \<not> valid_params (inputSchema sendTransactionTool) short_address_params \<and>
   fst (call_tool sample_env ok_wallet ''tx1'' 1000 tx_server
          ''wallet_sendTransaction'' short_address_params)
     = ErrorResponse sample_signal \<and>
   pendingConfirmations (snd (call_tool sample_env ok_wallet ''tx1'' 1000 tx_server
                                ''wallet_sendTransaction'' short_address_params)) ''tx1''
     = Some \<lparr> params = short_address_params, status = Pending, createdAt = 1000 \<rparr>"
  by (simp add: call_tool_def default_server_fields tx_server_fields tool_defs valid_examples
        signTransaction_handler_def sendTransaction_handler_def call_wallet_def ok_wallet_def
        get_prop_def template_throws_def no_fields_def short_address_params_def
        error_response_def sample_env_def sample_parse_signal log_sample_signal
        sample_signal_eq [unfolded sample_env_def]
        valid_examples [unfolded no_fields_def short_address_params_def])

text \<open>
  Claim C3, amended. The call-tool handler does not validate parameters and has no
  InvalidParameters outcome. Whatever the parameters are, a registered read or prepare
  tool calls the wallet once with them; the info tool calls it with \<open>params.token\<close> and
  \<open>params.decimals\<close> unless \<open>params\<close> is \<open>null\<close> or \<open>undefined\<close>;
  \<open>wallet_sendTransaction\<close> under \<open>requireConfirmation\<close> stores them in a pending entry
  and does not call the wallet. A tool name that is not registered gets the error for
  the not-found message, and nothing else happens.
\<close>

theorem raw_params_reach_handler:
  "(find (\<lambda>t. name t = nm) (tools s) = None \<longrightarrow>
      call_tool E W txId now s nm ps = (error_response E (Error (not_found_tool nm)), s)) \<and>
   (find (\<lambda>t. name t = nm) (tools s) = Some t \<and>
    handler t \<in> {H_getAddress, H_getBalance, H_signTransaction} \<longrightarrow>
      wallet_calls (snd (call_tool E W txId now s nm ps))
        = wallet_calls s @ [capability_call (handler t) ps]) \<and>
   (find (\<lambda>t. name t = nm) (tools s) = Some t \<and> handler t = H_getTokenBalance \<longrightarrow>
      wallet_calls (snd (call_tool E W txId now s nm ps))
        = (if ps = None \<or> ps = Some JNull then wallet_calls s
           else wallet_calls s @ [capability_call H_getTokenBalance ps])) \<and>
   (find (\<lambda>t. name t = nm) (tools s) = Some t \<and> handler t = H_sendTransaction \<and>
    requireConfirmation (config s) \<longrightarrow>
      wallet_calls (snd (call_tool E W txId now s nm ps)) = wallet_calls s \<and>
      pendingConfirmations (snd (call_tool E W txId now s nm ps)) txId
        = Some \<lparr> params = ps, status = Pending, createdAt = now \<rparr>)"
proof (intro conjI impI)
  assume "find (\<lambda>t. name t = nm) (tools s) = None"
  then show "call_tool E W txId now s nm ps = (error_response E (Error (not_found_tool nm)), s)"
    by (simp add: call_tool_def)
next
  assume "find (\<lambda>t. name t = nm) (tools s) = Some t \<and>
          handler t \<in> {H_getAddress, H_getBalance, H_signTransaction}"
  then show "wallet_calls (snd (call_tool E W txId now s nm ps))
               = wallet_calls s @ [capability_call (handler t) ps]"
    by (auto simp: call_tool_def getAddress_handler_def getBalance_handler_def
          signTransaction_handler_def call_wallet_def split: sum.splits)
next
  assume a: "find (\<lambda>t. name t = nm) (tools s) = Some t \<and> handler t = H_getTokenBalance"
  show "wallet_calls (snd (call_tool E W txId now s nm ps))
          = (if ps = None \<or> ps = Some JNull then wallet_calls s
             else wallet_calls s @ [capability_call H_getTokenBalance ps])"
  proof (cases ps)
    case None
    with a show ?thesis
      by (simp add: call_tool_def getTokenBalance_handler_def get_prop_def)
  next
    case (Some j)
    with a show ?thesis
      by (cases j)
         (simp_all add: call_tool_def getTokenBalance_handler_def get_prop_def call_wallet_def
            split: sum.splits)
  qed
next
  assume a: "find (\<lambda>t. name t = nm) (tools s) = Some t \<and> handler t = H_sendTransaction \<and>
             requireConfirmation (config s)"
  then show "wallet_calls (snd (call_tool E W txId now s nm ps)) = wallet_calls s"
    by (simp add: call_tool_def sendTransaction_handler_def)
  from a show "pendingConfirmations (snd (call_tool E W txId now s nm ps)) txId
                 = Some \<lparr> params = ps, status = Pending, createdAt = now \<rparr>"
    by (simp add: call_tool_def sendTransaction_handler_def)
qed

theorem raw_params_reach_handler_witness:
  "find (\<lambda>t. name t = ''wallet_sendTransaction'') (tools no_confirm_server) = None \<and>
   call_tool sample_env ok_wallet ''tx1'' 1000 no_confirm_server
       ''wallet_sendTransaction'' sample_params
     = (error_response sample_env (Error ''Tool wallet_sendTransaction not found''),
        no_confirm_server) \<and>
   find (\<lambda>t. name t = ''wallet_signTransaction'') (tools default_server)
     = Some signTransactionTool \<and>
   handler signTransactionTool \<in> {H_getAddress, H_getBalance, H_signTransaction} \<and>
   wallet_calls (snd (call_tool sample_env ok_wallet ''tx1'' 1000 default_server
                        ''wallet_signTransaction'' no_fields))
     = [SignTransaction no_fields] \<and>
   find (\<lambda>t. name t = ''wallet_getTokenBalance'') (tools default_server)
     = Some getTokenBalanceTool \<and>
   handler getTokenBalanceTool = H_getTokenBalance \<and>
   wallet_calls (snd (call_tool sample_env ok_wallet ''tx1'' 1000 default_server
                        ''wallet_getTokenBalance'' no_fields))
     = [GetTokenBalance None None] \<and>
   find (\<lambda>t. name t = ''wallet_sendTransaction'') (tools tx_server)
     = Some sendTransactionTool \<and>
   handler sendTransactionTool = H_sendTransaction \<and>
   requireConfirmation (config tx_server) \<and>
   pendingConfirmations (snd (call_tool sample_env ok_wallet ''tx1'' 1000 tx_server
                                ''wallet_sendTransaction'' short_address_params)) ''tx1''
     = Some \<lparr> params = short_address_params, status = Pending, createdAt = 1000 \<rparr>"
proof -
  have f1: "find (\<lambda>t. name t = ''wallet_sendTransaction'') (tools no_confirm_server) = None"
    by (simp add: no_confirm_server_fields)
  have f2: "find (\<lambda>t. name t = ''wallet_signTransaction'') (tools default_server)
              = Some signTransactionTool"
    by (simp add: default_server_fields tool_defs)
  have f3: "find (\<lambda>t. name t = ''wallet_getTokenBalance'') (tools default_server)
              = Some getTokenBalanceTool"
    by (simp add: default_server_fields tool_defs)
  have f4: "find (\<lambda>t. name t = ''wallet_sendTransaction'') (tools tx_server)
              = Some sendTransactionTool"
    by (simp add: tx_server_fields tool_defs)
  show ?thesis
    using f1 f2 f3 f4 tx_server_fields(2)
      raw_params_reach_handler
        [of "''wallet_sendTransaction''" no_confirm_server sample_env ok_wallet "''tx1''" 1000
            sample_params sendTransactionTool]
      raw_params_reach_handler
        [of "''wallet_signTransaction''" default_server sample_env ok_wallet "''tx1''" 1000
            no_fields signTransactionTool]
      raw_params_reach_handler
        [of "''wallet_getTokenBalance''" default_server sample_env ok_wallet "''tx1''" 1000
            no_fields getTokenBalanceTool]
      raw_params_reach_handler
        [of "''wallet_sendTransaction''" tx_server sample_env ok_wallet "''tx1''" 1000
            short_address_params sendTransactionTool]
    by (simp add: tool_defs default_server_fields not_found_tool_def no_fields_def)
qed

section \<open>Read, prepare and info calls\<close>

text \<open>
  Claim C8, as the specification states it: a valid call to a read, info or prepare tool
  never produces the confirmation signal and never creates a pending entry; it returns
  the capability's result or a capability error.

  The response to a failure is computed from the text of the error message. When the
  wallet fails with a message that is the JSON text of a confirmation signal, the
  response to \<open>wallet_getBalance\<close> is that signal: the same response that parking a
  transaction under the id \<open>tx1\<close> gives.
\<close>

theorem lower_tier_signal_counterexample:
  "tool_tier getBalanceTool = Read \<and>
   valid_params (inputSchema getBalanceTool) no_fields \<and>
   fst (call_tool sample_env signal_wallet ''tx2'' 2000 tx_server ''wallet_getBalance'' no_fields)
     = ErrorResponse sample_signal \<and>
   fst (call_tool sample_env ok_wallet ''tx1'' 1000 tx_server
          ''wallet_sendTransaction'' sample_params)
     = ErrorResponse sample_signal"
  by (simp add: call_tool_def tx_server_fields tool_defs tool_tier_def valid_examples
        getBalance_handler_def call_wallet_def signal_wallet_def
        sendTransaction_handler_def error_response_def
        sample_env_def sample_parse_signal log_sample_signal
        sample_signal_eq [unfolded sample_env_def])

text \<open>
  Claim C8, amended. A valid call to a registered read, info or prepare tool never
  creates a pending entry and calls the capability exactly once. It returns the
  capability's result, or, when the capability fails, the error response computed from
  the capability's error, which is a confirmation signal when the error's message is the
  JSON text of one.
\<close>

theorem lower_tier_call_outcome:
  assumes st: "started s"
      and f: "find (\<lambda>t. name t = nm) (tools s) = Some t"
      and tier: "tool_tier t \<noteq> Transaction"
      and valid: "valid_params (inputSchema t) ps"
  shows "pendingConfirmations (snd (call_tool E W txId now s nm ps)) = pendingConfirmations s \<and>
         wallet_calls (snd (call_tool E W txId now s nm ps))
           = wallet_calls s @ [capability_call (handler t) ps] \<and>
         fst (call_tool E W txId now s nm ps)
           = (case W (wallet_calls s) (capability_call (handler t) ps) of
                Inr v \<Rightarrow> Result (capability_result (handler t) v)
              | Inl e \<Rightarrow> error_response E e)"
proof -
  from started_tool_cases [OF st f] have "t \<in> set all_tools" by simp
  with tier consider "t = getAddressTool" | "t = getBalanceTool"
    | "t = signTransactionTool" | "t = getTokenBalanceTool"
    by (auto simp: all_tools_def tool_tier_def sendTransactionTool_def)
  then show ?thesis
  proof cases
    case 1
    with f show ?thesis
      by (simp add: call_tool_def getAddressTool_def getAddress_handler_def call_wallet_def
            split: sum.splits)
  next
    case 2
    with f show ?thesis
      by (simp add: call_tool_def getBalanceTool_def getBalance_handler_def call_wallet_def
            split: sum.splits)
  next
    case 3
    with valid have "valid_params transaction_schema ps"
      by (simp add: signTransactionTool_def)
    then obtain kvs a where "ps = Some (JObj kvs)" "map_of kvs ''to'' = Some (JStr a)"
      using valid_transaction_to by blast
    with 3 f show ?thesis
      by (simp add: call_tool_def signTransactionTool_def signTransaction_handler_def
            call_wallet_def get_prop_def template_throws_def split: sum.splits)
  next
    case 4
    with valid have "valid_params token_schema ps"
      by (simp add: getTokenBalanceTool_def)
    then obtain kvs a where "ps = Some (JObj kvs)" "map_of kvs ''token'' = Some (JStr a)"
      using valid_token_token by blast
    with 4 f show ?thesis
      by (simp add: call_tool_def getTokenBalanceTool_def getTokenBalance_handler_def
            call_wallet_def get_prop_def template_throws_def split: sum.splits)
  qed
qed

theorem lower_tier_call_outcome_witness:
  "started default_server \<and>
   find (\<lambda>t. name t = ''wallet_getTokenBalance'') (tools default_server)
     = Some getTokenBalanceTool \<and>
   tool_tier getTokenBalanceTool \<noteq> Transaction \<and>
   valid_params (inputSchema getTokenBalanceTool) token_params \<and>
   pendingConfirmations
     (snd (call_tool sample_env ok_wallet ''tx1'' 1000 default_server
             ''wallet_getTokenBalance'' token_params)) = Map.empty \<and>
   wallet_calls
     (snd (call_tool sample_env ok_wallet ''tx1'' 1000 default_server
             ''wallet_getTokenBalance'' token_params))
     = [GetTokenBalance (Some (JStr ''0x52908400098527886E0F7030069857D2E4169EE7''))
          (Some (JNum 18))] \<and>
   fst (call_tool sample_env ok_wallet ''tx1'' 1000 default_server
          ''wallet_getTokenBalance'' token_params) = Result (JStr ''0xabc'')"
proof -
  have f: "find (\<lambda>t. name t = ''wallet_getTokenBalance'') (tools default_server)
             = Some getTokenBalanceTool"
    by (simp add: default_server_fields tool_defs)
  have t: "tool_tier getTokenBalanceTool \<noteq> Transaction"
    by (simp add: tool_tier_def getTokenBalanceTool_def)
  have v: "valid_params (inputSchema getTokenBalanceTool) token_params"
    by (simp add: getTokenBalanceTool_def valid_examples)
  from lower_tier_call_outcome [OF started_examples(1) f t v,
         of sample_env ok_wallet "''tx1''" 1000]
  show ?thesis
    using f t v started_examples(1)
    by (simp add: default_server_fields getTokenBalanceTool_def token_params_def
          ok_wallet_def)
qed

section \<open>The response to a failing handler\<close>

text \<open>
  Claim C10, as the specification states it: for every handler error whose message is
  valid JSON text the response is the parsed value as \<open>error\<close>, and for every error whose
  message is not valid JSON the response has code \<open>TOOL_ERROR\<close>.

  The message \<open>null\<close> is valid JSON, and so is the text of an object whose \<open>message\<close> is
  an object with a property \<open>toString\<close>. For both the log line after \<open>JSON.parse\<close> throws
  a \<open>TypeError\<close> inside the \<open>try\<close>, and the response has code \<open>TOOL_ERROR\<close>.
\<close>

theorem json_message_counterexample:
  "JSON_parse sample_env ''null'' = Some JNull \<and>
   fst (call_tool sample_env null_wallet ''tx1'' 1000 default_server
          ''wallet_getBalance'' no_fields)
     = tool_error ''null'' \<and>
   JSON_parse sample_env (stringify odd_signal) = Some odd_signal \<and>
   fst (call_tool sample_env odd_wallet ''tx1'' 1000 default_server
          ''wallet_getBalance'' no_fields)
     = tool_error (stringify odd_signal)"
  by (simp add: call_tool_def default_server_fields tool_defs getBalance_handler_def
        call_wallet_def null_wallet_def odd_wallet_def error_response_def sample_env_def
        sample_parse_null sample_parse_odd log_parsed_throws_def)
     (simp add: odd_signal_def template_throws_def)

text \<open>
  Claim C10, amended. When a tool's handler throws an \<open>Error\<close>, the response depends on
  its message: if the message parses as JSON to a value other than \<open>null\<close> whose
  \<open>message\<close> property, if it is an object with one, can be converted to a string, the
  response is that parsed value as \<open>error\<close> (this is how the confirmation signal is
  delivered, and a capability failure with such a message is returned the same way);
  otherwise the response has code \<open>TOOL_ERROR\<close> and the message. A thrown value that is
  not an \<open>Error\<close> gives code \<open>UNKNOWN_ERROR\<close>.
\<close>

theorem response_by_error_message:
  assumes "find (\<lambda>t. name t = nm) (tools s) = Some t"
      and "run_handler E W txId now s (handler t) ps = (Inl e, s')"
  shows "call_tool E W txId now s nm ps
           = (case e of
                NonError \<Rightarrow> unknown_error
              | Error m \<Rightarrow>
                  (case JSON_parse E m of
                     None \<Rightarrow> tool_error m
                   | Some j \<Rightarrow>
                       if j = JNull \<or>
                          (\<exists>kvs v. j = JObj kvs \<and> map_of kvs ''message'' = Some v \<and>
                                   to_string_throws v)
                       then tool_error m
                       else ErrorResponse j),
              s')"
  using assms
  by (simp add: call_tool_def error_response_def log_parsed_throws_iff
        split: thrown.splits option.splits)

theorem response_by_error_message_witness:
  "find (\<lambda>t. name t = ''wallet_getBalance'') (tools tx_server) = Some getBalanceTool \<and>
   run_handler sample_env signal_wallet ''tx2'' 2000 tx_server (handler getBalanceTool) no_fields
     = (Inl (Error (stringify sample_signal)), tx_server\<lparr> wallet_calls := [GetBalance] \<rparr>) \<and>
   call_tool sample_env signal_wallet ''tx2'' 2000 tx_server ''wallet_getBalance'' no_fields
     = (ErrorResponse sample_signal, tx_server\<lparr> wallet_calls := [GetBalance] \<rparr>) \<and>
   run_handler sample_env failing_wallet ''tx2'' 2000 tx_server (handler getBalanceTool) no_fields
     = (Inl (Error ''insufficient funds''), tx_server\<lparr> wallet_calls := [GetBalance] \<rparr>) \<and>
   call_tool sample_env failing_wallet ''tx2'' 2000 tx_server ''wallet_getBalance'' no_fields
     = (tool_error ''insufficient funds'', tx_server\<lparr> wallet_calls := [GetBalance] \<rparr>)"
proof -
  have f: "find (\<lambda>t. name t = ''wallet_getBalance'') (tools tx_server) = Some getBalanceTool"
    by (simp add: tx_server_fields tool_defs)
  have r1: "run_handler sample_env signal_wallet ''tx2'' 2000 tx_server
              (handler getBalanceTool) no_fields
            = (Inl (Error (stringify sample_signal)), tx_server\<lparr> wallet_calls := [GetBalance] \<rparr>)"
    by (simp add: getBalanceTool_def getBalance_handler_def call_wallet_def signal_wallet_def
          tx_server_fields)
  have r2: "run_handler sample_env failing_wallet ''tx2'' 2000 tx_server
              (handler getBalanceTool) no_fields
            = (Inl (Error ''insufficient funds''), tx_server\<lparr> wallet_calls := [GetBalance] \<rparr>)"
    by (simp add: getBalanceTool_def getBalance_handler_def call_wallet_def failing_wallet_def
          tx_server_fields)
  have p1: "JSON_parse sample_env (stringify sample_signal) = Some sample_signal"
    by (simp add: sample_env_def sample_parse_signal)
  have p2: "JSON_parse sample_env ''insufficient funds'' = None"
    by (simp add: sample_env_def sample_parse_def sample_signal_def sample_message_def
          odd_signal_def)
  have l: "\<not> (sample_signal = JNull \<or>
               (\<exists>kvs v. sample_signal = JObj kvs \<and> map_of kvs ''message'' = Some v \<and>
                        to_string_throws v))"
    using log_sample_signal by (simp add: log_parsed_throws_iff)
  from response_by_error_message [OF f r1]
  have c1: "call_tool sample_env signal_wallet ''tx2'' 2000 tx_server ''wallet_getBalance''
              no_fields
            = (ErrorResponse sample_signal, tx_server\<lparr> wallet_calls := [GetBalance] \<rparr>)"
    by (simp only: thrown.case p1 option.case l if_False)
  from response_by_error_message [OF f r2]
  have c2: "call_tool sample_env failing_wallet ''tx2'' 2000 tx_server ''wallet_getBalance''
              no_fields
            = (tool_error ''insufficient funds'', tx_server\<lparr> wallet_calls := [GetBalance] \<rparr>)"
    by (simp only: thrown.case p2 option.case)
  from f r1 r2 c1 c2 show ?thesis by (intro conjI)
qed

end
